theory Spec2Isabelle
  imports Main
begin

section \<open>Data model (pkg/db/models)\<close>

text \<open>
  The metadata store of gosync is a thin layer over GORM on SQLite. The rows are the Go
  structs of \<^verbatim>\<open>pkg/db/models\<close>; a table is the list of its rows in insertion (rowid)
  order. \<^verbatim>\<open>time.Time\<close> is a tick count whose zero value is \<open>0\<close>; \<^verbatim>\<open>gorm.DeletedAt\<close> is a
  nullable time, \<open>None\<close> for a row that is still active. Go's \<^verbatim>\<open>uint\<close> keys are natural
  numbers (the 64-bit bound is never reached by counting rows). The relationship fields
  (\<^verbatim>\<open>Files\<close>, \<^verbatim>\<open>Backend\<close>, \<^verbatim>\<open>Tags\<close>, \<^verbatim>\<open>File\<close>) are not columns; they are left at their
  zero value by every caller of the store and do not appear in the rows.
\<close>

type_synonym time = int

record Backend =
  ID :: string
  Name :: string
  Endpoint :: string
  Region :: string
  Bucket :: string
  UseSSL :: bool
  AccessKey :: string
  SecretKey :: string
  CreatedAt :: time
  UpdatedAt :: time
  DeletedAt :: "time option"

record File =
  ID :: nat
  BackendID :: string
  Path :: string
  Size :: int
  MD5Hash :: string
  SHA256Hash :: string
  ETag :: string
  ModifiedAt :: time
  CreatedAt :: time
  UpdatedAt :: time
  DeletedAt :: "time option"

record Tag =
  ID :: nat
  FileID :: nat
  Key :: string
  Value :: string
  CreatedAt :: time
  UpdatedAt :: time
  DeletedAt :: "time option"

record Filter =
  ID :: nat
  VirtualPath :: string
  Name :: string
  QueryExpression :: string
  Description :: string
  CreatedAt :: time
  UpdatedAt :: time
  DeletedAt :: "time option"

text \<open>The database behind \<^verbatim>\<open>SQLiteStore.db\<close>: one list of rows per table.\<close>

record store =
  backends :: "Backend list"
  files :: "File list"
  tags :: "Tag list"
  filters :: "Filter list"

definition empty_store :: store where
  "empty_store = \<lparr>backends = [], files = [], tags = [], filters = []\<rparr>"

text \<open>
  The errors the modelled calls can return: \<^verbatim>\<open>gorm.ErrRecordNotFound\<close> from \<^verbatim>\<open>First\<close>,
  SQLite's \<^verbatim>\<open>UNIQUE constraint failed: <column>\<close> from an insert, the error a migration's
  \<^verbatim>\<open>Up\<close> function returns, and the wrapper \<^verbatim>\<open>migration %d (%s) failed: %w\<close> that
  \<^verbatim>\<open>Migrate\<close> puts around either. Failures of the connection itself are outside the model.
\<close>

datatype error =
    ErrRecordNotFound
  | ErrUniqueConstraint string
  | ErrUp string
  | ErrMigration int string error

section \<open>The GORM calls the store makes\<close>

subsection \<open>Create\<close>

text \<open>
  An \<^verbatim>\<open>integer PRIMARY KEY AUTOINCREMENT\<close> column left at \<open>0\<close> receives the successor of
  the largest key of the table. No row of these tables is ever removed physically (every
  model has a \<^verbatim>\<open>DeletedAt\<close> column, so every delete is a soft delete), hence the largest
  key ever used is the largest key present.
\<close>

definition next_id :: "nat list \<Rightarrow> nat" where
  "next_id ids = Suc (fold max ids 0)"

text \<open>\<^verbatim>\<open>CreatedAt\<close> and \<^verbatim>\<open>UpdatedAt\<close> are set to \<^verbatim>\<open>NowFunc()\<close> when the caller left them zero.\<close>

definition stamp :: "time \<Rightarrow> time \<Rightarrow> time" where
  "stamp now t = (if t = 0 then now else t)"

text \<open>
  \<^verbatim>\<open>CreateBackend\<close> (sqlite.go:106): \<^verbatim>\<open>s.db.WithContext(ctx).Create(backend).Error\<close>.
  The only constraint of the table is the text primary key \<^verbatim>\<open>id\<close>, which covers the
  soft-deleted rows too. \<^verbatim>\<open>UseSSL\<close> carries \<^verbatim>\<open>default:true\<close>: GORM replaces a zero
  (\<^verbatim>\<open>false\<close>) value by the default on insert, so the stored flag is always true. The
  result is the new database and the struct as GORM wrote it back through the pointer.
\<close>

definition CreateBackend :: "time \<Rightarrow> store \<Rightarrow> Backend \<Rightarrow> error + store \<times> Backend" where
  "CreateBackend now s backend =
     (let row = backend\<lparr>UseSSL := True,
                        Backend.CreatedAt := stamp now (Backend.CreatedAt backend),
                        Backend.UpdatedAt := stamp now (Backend.UpdatedAt backend)\<rparr>
      in if Backend.ID backend \<in> set (map Backend.ID (backends s))
         then Inl (ErrUniqueConstraint ''backends.id'')
         else Inr (s\<lparr>backends := backends s @ [row]\<rparr>, row))"

text \<open>
  \<^verbatim>\<open>CreateFile\<close> (sqlite.go:135). The columns \<^verbatim>\<open>backend_id\<close> and \<^verbatim>\<open>path\<close> share the plain
  index \<^verbatim>\<open>idx_backend_path\<close> (filter.go:32-33: \<^verbatim>\<open>index:\<close>, not \<^verbatim>\<open>uniqueIndex:\<close>), so the
  primary key is the only constraint an insert can violate.
\<close>

definition CreateFile :: "time \<Rightarrow> store \<Rightarrow> File \<Rightarrow> error + store \<times> File" where
  "CreateFile now s file =
     (let stamped = file\<lparr>File.CreatedAt := stamp now (File.CreatedAt file),
                          File.UpdatedAt := stamp now (File.UpdatedAt file)\<rparr>;
          row = (if File.ID file = 0
                 then stamped\<lparr>File.ID := next_id (map File.ID (files s))\<rparr>
                 else stamped)
      in if File.ID row \<in> set (map File.ID (files s))
         then Inl (ErrUniqueConstraint ''files.id'')
         else Inr (s\<lparr>files := files s @ [row]\<rparr>, row))"

text \<open>
  \<^verbatim>\<open>CreateTag\<close> (sqlite.go:183). The three columns \<^verbatim>\<open>file_id\<close>, \<^verbatim>\<open>key\<close> and \<^verbatim>\<open>value\<close> have
  one plain index each (tag.go:12-14); again only the primary key can be violated.
  SQLite does not enforce the foreign key to \<^verbatim>\<open>files\<close> unless the connection switches
  \<^verbatim>\<open>foreign_keys\<close> on, which this store never does.
\<close>

definition CreateTag :: "time \<Rightarrow> store \<Rightarrow> Tag \<Rightarrow> error + store \<times> Tag" where
  "CreateTag now s tag =
     (let stamped = tag\<lparr>Tag.CreatedAt := stamp now (Tag.CreatedAt tag),
                         Tag.UpdatedAt := stamp now (Tag.UpdatedAt tag)\<rparr>;
          row = (if Tag.ID tag = 0
                 then stamped\<lparr>Tag.ID := next_id (map Tag.ID (tags s))\<rparr>
                 else stamped)
      in if Tag.ID row \<in> set (map Tag.ID (tags s))
         then Inl (ErrUniqueConstraint ''tags.id'')
         else Inr (s\<lparr>tags := tags s @ [row]\<rparr>, row))"

text \<open>
  \<^verbatim>\<open>CreateFilter\<close> (sqlite.go:220). \<^verbatim>\<open>virtual_path\<close> has a \<^verbatim>\<open>uniqueIndex\<close> (filter.go:12);
  like the primary key it counts the soft-deleted rows.
\<close>

definition CreateFilter :: "time \<Rightarrow> store \<Rightarrow> Filter \<Rightarrow> error + store \<times> Filter" where
  "CreateFilter now s flt =
     (let stamped = flt\<lparr>Filter.CreatedAt := stamp now (Filter.CreatedAt flt),
                         Filter.UpdatedAt := stamp now (Filter.UpdatedAt flt)\<rparr>;
          row = (if Filter.ID flt = 0
                 then stamped\<lparr>Filter.ID := next_id (map Filter.ID (filters s))\<rparr>
                 else stamped)
      in if Filter.ID row \<in> set (map Filter.ID (filters s))
         then Inl (ErrUniqueConstraint ''filters.id'')
         else if VirtualPath row \<in> set (map VirtualPath (filters s))
         then Inl (ErrUniqueConstraint ''filters.virtual_path'')
         else Inr (s\<lparr>filters := filters s @ [row]\<rparr>, row))"

subsection \<open>Queries\<close>

text \<open>
  A GORM statement under construction: the conditions added by \<^verbatim>\<open>Where\<close>, and the
  \<^verbatim>\<open>LIMIT\<close> and \<^verbatim>\<open>OFFSET\<close> clauses when \<^verbatim>\<open>Limit\<close> and \<^verbatim>\<open>Offset\<close> were called. The store
  consults neither \<^verbatim>\<open>Order\<close> nor \<^verbatim>\<open>Distinct\<close> anywhere.
\<close>

record 'a query =
  conds :: "('a \<Rightarrow> bool) list"
  limit_clause :: "int option"
  offset_clause :: "int option"

definition Model :: "'a query" where
  "Model = \<lparr>conds = [], limit_clause = None, offset_clause = None\<rparr>"

definition Where :: "('a \<Rightarrow> bool) \<Rightarrow> 'a query \<Rightarrow> 'a query" where
  "Where c q = q\<lparr>conds := conds q @ [c]\<rparr>"

definition Limit :: "int \<Rightarrow> 'a query \<Rightarrow> 'a query" where
  "Limit n q = q\<lparr>limit_clause := Some n\<rparr>"

definition Offset :: "int \<Rightarrow> 'a query \<Rightarrow> 'a query" where
  "Offset n q = q\<lparr>offset_clause := Some n\<rparr>"

text \<open>
  The rows a statement selects from a table: every condition holds and, the model having
  a \<^verbatim>\<open>DeletedAt\<close> column, \<^verbatim>\<open>deleted_at IS NULL\<close>. With no \<^verbatim>\<open>ORDER BY\<close> the rows come in the
  order the engine walks the table, which is the order of the table here.
\<close>

definition selected :: "('a \<Rightarrow> time option) \<Rightarrow> 'a query \<Rightarrow> 'a list \<Rightarrow> 'a list" where
  "selected deleted q rows =
     filter (\<lambda>r. list_all (\<lambda>c. c r) (conds q) \<and> deleted r = None) rows"

text \<open>\<^verbatim>\<open>LIMIT n OFFSET m\<close>: skip \<open>m\<close> rows, then keep at most \<open>n\<close>.\<close>

definition window :: "'a query \<Rightarrow> 'a list \<Rightarrow> 'a list" where
  "window q rows =
     (let skipped = (case offset_clause q of None \<Rightarrow> rows | Some m \<Rightarrow> drop (nat m) rows)
      in case limit_clause q of None \<Rightarrow> skipped | Some n \<Rightarrow> take (nat n) skipped)"

definition Find :: "('a \<Rightarrow> time option) \<Rightarrow> 'a query \<Rightarrow> 'a list \<Rightarrow> 'a list" where
  "Find deleted q rows = window q (selected deleted q rows)"

text \<open>
  \<^verbatim>\<open>First\<close> adds \<^verbatim>\<open>ORDER BY <primary key> LIMIT 1\<close> and returns \<^verbatim>\<open>ErrRecordNotFound\<close> when
  no row is selected. \<open>ordered\<close> sorts the selected rows by the primary key.
\<close>

definition First :: "('a \<Rightarrow> time option) \<Rightarrow> ('a list \<Rightarrow> 'a list) \<Rightarrow> 'a query \<Rightarrow> 'a list \<Rightarrow> error + 'a" where
  "First deleted ordered q rows =
     (case ordered (selected deleted q rows) of
        [] \<Rightarrow> Inl ErrRecordNotFound
      | r # _ \<Rightarrow> Inr r)"

subsection \<open>Delete\<close>

text \<open>
  \<^verbatim>\<open>Delete\<close> on a model with a \<^verbatim>\<open>DeletedAt\<close> column is the statement
  \<^verbatim>\<open>UPDATE t SET deleted_at = now WHERE <conditions> AND deleted_at IS NULL\<close>: the rows stay
  in the table, and no \<^verbatim>\<open>ON DELETE\<close> action of a foreign key runs. It reports no error
  when no row matches.
\<close>

definition soft_delete ::
  "('a \<Rightarrow> time option) \<Rightarrow> (time \<Rightarrow> 'a \<Rightarrow> 'a) \<Rightarrow> time \<Rightarrow> ('a \<Rightarrow> bool) \<Rightarrow> 'a list \<Rightarrow> 'a list" where
  "soft_delete deleted mark now c rows =
     map (\<lambda>r. if c r \<and> deleted r = None then mark now r else r) rows"

subsection \<open>LIKE\<close>

text \<open>
  SQLite's \<^verbatim>\<open>LIKE\<close> with its defaults (no \<^verbatim>\<open>ESCAPE\<close>, \<^verbatim>\<open>case_sensitive_like\<close> off):
  \<^verbatim>\<open>%\<close> matches any run of characters, \<^verbatim>\<open>_\<close> any one character, and every other
  character matches itself, the ASCII letters regardless of case. One element of a model
  string stands for one character.
\<close>

definition sqlite3Tolower :: "char \<Rightarrow> char" where
  "sqlite3Tolower c =
     (case map_of (zip ''ABCDEFGHIJKLMNOPQRSTUVWXYZ'' ''abcdefghijklmnopqrstuvwxyz'') c of
        None \<Rightarrow> c
      | Some l \<Rightarrow> l)"

fun like :: "string \<Rightarrow> string \<Rightarrow> bool" where
  "like [] [] = True"
| "like [] (c # cs) = False"
| "like (p # ps) [] = (p = CHR ''%'' \<and> like ps [])"
| "like (p # ps) (c # cs) =
     (if p = CHR ''%'' then like ps (c # cs) \<or> like (p # ps) cs
      else (p = CHR ''_'' \<or> sqlite3Tolower p = sqlite3Tolower c) \<and> like ps cs)"

section \<open>SQLiteStore (pkg/db/store/sqlite.go)\<close>

text \<open>
  Each method is the composition of GORM calls the source writes. A method whose only
  error is a failure of the connection returns its value directly.
\<close>

definition GetBackend :: "store \<Rightarrow> string \<Rightarrow> error + Backend" where
  \<comment> \<open>line 110; all selected rows carry the same \<^verbatim>\<open>id\<close>, so ordering by it moves nothing\<close>
  "GetBackend s id' =
     First Backend.DeletedAt (\<lambda>rows. rows) (Where (\<lambda>b. Backend.ID b = id') Model) (backends s)"

definition ListBackends :: "store \<Rightarrow> Backend list" where
  "ListBackends s = Find Backend.DeletedAt Model (backends s)"

definition DeleteBackend :: "time \<Rightarrow> store \<Rightarrow> string \<Rightarrow> store" where
  \<comment> \<open>line 129\<close>
  "DeleteBackend now s id' =
     s\<lparr>backends := soft_delete Backend.DeletedAt (\<lambda>t b. b\<lparr>Backend.DeletedAt := Some t\<rparr>) now
                      (\<lambda>b. Backend.ID b = id') (backends s)\<rparr>"

definition GetFile :: "store \<Rightarrow> string \<Rightarrow> string \<Rightarrow> error + File" where
  \<comment> \<open>line 139\<close>
  "GetFile s backendID path =
     First File.DeletedAt (sort_key File.ID)
       (Where (\<lambda>f. BackendID f = backendID \<and> Path f = path) Model) (files s)"

definition ListFiles :: "store \<Rightarrow> string \<Rightarrow> string \<Rightarrow> int \<Rightarrow> int \<Rightarrow> File list" where
  \<comment> \<open>line 150\<close>
  "ListFiles s backendID pathPrefix limit offset =
     (let query = Where (\<lambda>f. BackendID f = backendID) Model;
          query = (if pathPrefix \<noteq> [] then Where (\<lambda>f. like (pathPrefix @ ''%'') (Path f)) query
                   else query);
          query = (if limit > 0 then Limit limit query else query);
          query = (if offset > 0 then Offset offset query else query)
      in Find File.DeletedAt query (files s))"

definition DeleteFile :: "time \<Rightarrow> store \<Rightarrow> nat \<Rightarrow> store" where
  \<comment> \<open>line 173\<close>
  "DeleteFile now s id' =
     s\<lparr>files := soft_delete File.DeletedAt (\<lambda>t f. f\<lparr>File.DeletedAt := Some t\<rparr>) now
                   (\<lambda>f. File.ID f = id') (files s)\<rparr>"

definition DeleteFilesByBackend :: "time \<Rightarrow> store \<Rightarrow> string \<Rightarrow> store" where
  \<comment> \<open>line 177\<close>
  "DeleteFilesByBackend now s backendID =
     s\<lparr>files := soft_delete File.DeletedAt (\<lambda>t f. f\<lparr>File.DeletedAt := Some t\<rparr>) now
                   (\<lambda>f. BackendID f = backendID) (files s)\<rparr>"

definition GetFileTags :: "store \<Rightarrow> nat \<Rightarrow> Tag list" where
  \<comment> \<open>line 187\<close>
  "GetFileTags s fileID = Find Tag.DeletedAt (Where (\<lambda>t. FileID t = fileID) Model) (tags s)"

text \<open>
  \<^verbatim>\<open>GetFilesByTag\<close> (line 193) selects from \<^verbatim>\<open>files JOIN tags ON tags.file_id = files.id\<close>:
  one joined row per pair of a file and a tag of that file. The conditions name the tag's
  key and value; GORM adds \<^verbatim>\<open>deleted_at IS NULL\<close> for the model of the statement, the
  file, and nothing for the joined table. The file of each joined row is returned.
\<close>

definition files_join_tags :: "store \<Rightarrow> (File \<times> Tag) list" where
  "files_join_tags s =
     concat (map (\<lambda>f. map (\<lambda>t. (f, t)) (filter (\<lambda>t. FileID t = File.ID f) (tags s))) (files s))"

definition GetFilesByTag :: "store \<Rightarrow> string \<Rightarrow> string \<Rightarrow> int \<Rightarrow> int \<Rightarrow> File list" where
  "GetFilesByTag s key value limit offset =
     (let query = Where (\<lambda>(f, t). Key t = key \<and> Value t = value) Model;
          query = (if limit > 0 then Limit limit query else query);
          query = (if offset > 0 then Offset offset query else query)
      in map fst (Find (\<lambda>(f, t). File.DeletedAt f) query (files_join_tags s)))"

definition DeleteTag :: "time \<Rightarrow> store \<Rightarrow> nat \<Rightarrow> store" where
  \<comment> \<open>line 210\<close>
  "DeleteTag now s id' =
     s\<lparr>tags := soft_delete Tag.DeletedAt (\<lambda>t r. r\<lparr>Tag.DeletedAt := Some t\<rparr>) now
                  (\<lambda>r. Tag.ID r = id') (tags s)\<rparr>"

definition DeleteFileTags :: "time \<Rightarrow> store \<Rightarrow> nat \<Rightarrow> store" where
  \<comment> \<open>line 214\<close>
  "DeleteFileTags now s fileID =
     s\<lparr>tags := soft_delete Tag.DeletedAt (\<lambda>t r. r\<lparr>Tag.DeletedAt := Some t\<rparr>) now
                  (\<lambda>r. FileID r = fileID) (tags s)\<rparr>"

definition GetFilter :: "store \<Rightarrow> string \<Rightarrow> error + Filter" where
  \<comment> \<open>line 224\<close>
  "GetFilter s virtualPath =
     First Filter.DeletedAt (sort_key Filter.ID)
       (Where (\<lambda>f. VirtualPath f = virtualPath) Model) (filters s)"

definition DeleteFilter :: "time \<Rightarrow> store \<Rightarrow> nat \<Rightarrow> store" where
  \<comment> \<open>line 243\<close>
  "DeleteFilter now s id' =
     s\<lparr>filters := soft_delete Filter.DeletedAt (\<lambda>t f. f\<lparr>Filter.DeletedAt := Some t\<rparr>) now
                     (\<lambda>f. Filter.ID f = id') (filters s)\<rparr>"

section \<open>A small database for the examples\<close>

text \<open>
  The end-to-end scenario of the specification: the backend \<^verbatim>\<open>selfhosted\<close>, the file
  \<^verbatim>\<open>pic.jpg\<close> in it and the tag \<^verbatim>\<open>colour=red\<close>. \<open>pic\<close> and \<open>red\<close> are the structs a caller
  passes to \<^verbatim>\<open>CreateFile\<close> and \<^verbatim>\<open>CreateTag\<close> (key and times unset); \<open>pic_store\<close> is the
  database after the backend and the file were created at times 1 and 2.
\<close>

definition selfhosted :: Backend where
  "selfhosted =
     \<lparr>Backend.ID = ''selfhosted'', Backend.Name = ''Self hosted'', Endpoint = ''s3.local'',
      Region = '''', Bucket = ''media'', UseSSL = True, AccessKey = ''ak'', SecretKey = ''sk'',
      Backend.CreatedAt = 1, Backend.UpdatedAt = 1, Backend.DeletedAt = None\<rparr>"

definition pic :: File where
  "pic =
     \<lparr>File.ID = 0, BackendID = ''selfhosted'', Path = ''pic.jpg'', Size = 10, MD5Hash = '''',
      SHA256Hash = '''', ETag = '''', ModifiedAt = 1, File.CreatedAt = 0, File.UpdatedAt = 0,
      File.DeletedAt = None\<rparr>"

definition red :: Tag where
  "red =
     \<lparr>Tag.ID = 0, FileID = 1, Key = ''colour'', Value = ''red'', Tag.CreatedAt = 0,
      Tag.UpdatedAt = 0, Tag.DeletedAt = None\<rparr>"

definition pic_store :: store where
  "pic_store =
     \<lparr>backends = [selfhosted],
      files = [pic\<lparr>File.ID := 1, File.CreatedAt := 2, File.UpdatedAt := 2\<rparr>],
      tags = [], filters = []\<rparr>"

section \<open>Notions the properties are stated with\<close>

text \<open>The active tag rows of a file that carry a given key and value.\<close>

definition tag_rows :: "store \<Rightarrow> nat \<Rightarrow> string \<Rightarrow> string \<Rightarrow> Tag list" where
  "tag_rows s fileID key value =
     filter (\<lambda>t. FileID t = fileID \<and> Key t = key \<and> Value t = value \<and> Tag.DeletedAt t = None)
       (tags s)"

text \<open>
  A client adding the same tag twice: two calls of \<^verbatim>\<open>CreateTag\<close> with a struct of the same
  contents, the second on the database the first left.
\<close>

definition CreateTag_twice :: "time \<Rightarrow> time \<Rightarrow> store \<Rightarrow> Tag \<Rightarrow> error + store" where
  "CreateTag_twice now1 now2 s tag =
     (case CreateTag now1 s tag of
        Inl e \<Rightarrow> Inl e
      | Inr (s1, _) \<Rightarrow> (case CreateTag now2 s1 tag of Inl e \<Rightarrow> Inl e | Inr (s2, _) \<Rightarrow> Inr s2))"

text \<open>
  The invariant of the data model on files: no two active rows agree on
  \<^verbatim>\<open>(BackendID, Path)\<close>.
\<close>

definition unique_backend_path :: "store \<Rightarrow> bool" where
  "unique_backend_path s =
     distinct (map (\<lambda>f. (BackendID f, Path f)) (filter (\<lambda>f. File.DeletedAt f = None) (files s)))"

text \<open>
  The identifier check of the design document (docs/02, \<^verbatim>\<open>isValidBackendID\<close>): not empty,
  no leading \<^verbatim>\<open>.\<close> or \<^verbatim>\<open>/\<close>, and only letters, digits, \<^verbatim>\<open>-\<close> and \<^verbatim>\<open>_\<close>. The document calls it
  from a registry (\<^verbatim>\<open>RegistryImpl.Register\<close>) that the code does not have; nothing in
  \<^verbatim>\<open>pkg/db/store\<close> calls it.
\<close>

definition backend_id_chars :: string where
  "backend_id_chars = ''abcdefghijklmnopqrstuvwxyzABCDEFGHIJKLMNOPQRSTUVWXYZ0123456789-_''"

definition isValidBackendID :: "string \<Rightarrow> bool" where
  "isValidBackendID id' =
     (case id' of
        [] \<Rightarrow> False
      | c # _ \<Rightarrow>
          c \<noteq> CHR ''.'' \<and> c \<noteq> CHR ''/'' \<and> list_all (\<lambda>c. c \<in> set backend_id_chars) id')"

text \<open>The filter of the end-to-end scenario, as stored with key 1.\<close>

definition red_filter :: Filter where
  "red_filter =
     \<lparr>Filter.ID = 1, VirtualPath = ''filters/pictures/red'', Filter.Name = ''red pictures'',
      QueryExpression = ''tag:colour=red'', Description = '''', Filter.CreatedAt = 5,
      Filter.UpdatedAt = 5, Filter.DeletedAt = None\<rparr>"



text \<open>
  The rows \<^verbatim>\<open>ListFiles\<close> asks for: active, of the backend, and with a path that matches the
  pattern \<^verbatim>\<open>pathPrefix%\<close> unless the prefix is empty.
\<close>

definition lists_file :: "string \<Rightarrow> string \<Rightarrow> File \<Rightarrow> bool" where
  "lists_file backendID pathPrefix f =
     (File.DeletedAt f = None \<and> BackendID f = backendID
      \<and> (pathPrefix = [] \<or> like (pathPrefix @ ''%'') (Path f)))"

text \<open>
  Three files of \<^verbatim>\<open>selfhosted\<close> in the order they were created: \<^verbatim>\<open>pic.jpg\<close>, \<^verbatim>\<open>art.jpg\<close>
  and \<^verbatim>\<open>PIC.JPG\<close>, with the keys 1, 2 and 3.
\<close>

definition album_store :: store where
  "album_store =
     pic_store\<lparr>files :=
       [pic\<lparr>File.ID := 1, File.CreatedAt := 2, File.UpdatedAt := 2\<rparr>,
        pic\<lparr>File.ID := 2, Path := ''art.jpg'', File.CreatedAt := 3, File.UpdatedAt := 3\<rparr>,
        pic\<lparr>File.ID := 3, Path := ''PIC.JPG'', File.CreatedAt := 4, File.UpdatedAt := 4\<rparr>]\<rparr>"

section \<open>Virtual path resolver\<close>

text \<open>
  Modelled from the spec: the results of the Virtual Path Resolver (section 4.1), which
  the repository does not implement. A path resolves to a backend with a path in it, to a
  filter, or to the pseudo-target that lists all backends; it fails with \<^verbatim>\<open>NotFound\<close> or
  \<^verbatim>\<open>InvalidPath\<close>.
\<close>

datatype target = AllBackends | BackendPath Backend string | FilterPath Filter

datatype resolve_error = NotFound | InvalidPath

text \<open>
  Modelled from the spec: the split of a slash-delimited path into its first segment and
  the remainder behind the first \<^verbatim>\<open>/\<close> (section 4.1), missing from the code with the
  resolver. The sketch in the design document (docs/02,
  \<^verbatim>\<open>RegistryImpl.ResolveVirtualPath\<close>) splits the same way, with
  \<^verbatim>\<open>strings.SplitN(path, "/", 2)\<close>.
\<close>

definition split_first :: "string \<Rightarrow> string \<times> string" where
  "split_first path =
     (takeWhile (\<lambda>c. c \<noteq> CHR ''/'') path, drop 1 (dropWhile (\<lambda>c. c \<noteq> CHR ''/'') path))"

text \<open>
  Modelled from the spec: the Virtual Path Resolver (section 4.1), missing from the code.
  An empty or root path is the pseudo-target that lists all backends; otherwise the first
  segment is classified. If it is the reserved token, the remainder is looked up whole as
  a filter path; otherwise it must pass the identifier check before any lookup, and is then
  looked up as a backend, the remainder being the path in the backend. The lookups are the
  store's \<^verbatim>\<open>GetFilter\<close> and \<^verbatim>\<open>GetBackend\<close>. The reserved token is a parameter.
\<close>

definition resolve :: "string \<Rightarrow> store \<Rightarrow> string \<Rightarrow> resolve_error + target" where
  "resolve token s path =
     (if path = [] \<or> path = ''/'' then Inr AllBackends
      else case split_first path of
        (segment, remainder) \<Rightarrow>
          if segment = token
          then (case GetFilter s remainder of
                  Inl _ \<Rightarrow> Inl NotFound
                | Inr flt \<Rightarrow> Inr (FilterPath flt))
          else if \<not> isValidBackendID segment then Inl InvalidPath
          else (case GetBackend s segment of
                  Inl _ \<Rightarrow> Inl NotFound
                | Inr backend \<Rightarrow> Inr (BackendPath backend remainder)))"

section \<open>Migrations (pkg/db/migrations/migrations.go)\<close>

text \<open>
  The database as the migrator sees it: whatever the migrations change (\<open>schema\<close>, of any
  type), the table of \<^verbatim>\<open>migrationHistory\<close> rows, and the \<^verbatim>\<open>AUTOINCREMENT\<close> counter of that
  table, which \<^verbatim>\<open>Rollback\<close> can leave above the largest key present. \<^verbatim>\<open>version\<close> has a
  \<^verbatim>\<open>uniqueIndex\<close>. A migration's \<^verbatim>\<open>Up\<close> and \<^verbatim>\<open>Down\<close> take the database to a new one or fail
  with a message.
\<close>

record migrationHistory =
  ID :: nat
  Version :: int
  Description :: string
  AppliedAt :: int

record 'db database =
  schema :: 'db
  history :: "migrationHistory list"
  history_seq :: nat

record 'db Migration =
  Version :: int
  Description :: string
  Up :: "'db \<Rightarrow> string + 'db"
  Down :: "'db \<Rightarrow> string + 'db"

text \<open>
  \<^verbatim>\<open>runMigration\<close> (line 138) runs \<^verbatim>\<open>Up\<close> and the insert of the history row in one
  transaction: when either fails the transaction is rolled back and the database is as
  before. The result is the database after the call and the error, if any.
\<close>

definition runMigration ::
  "int \<Rightarrow> 'db database \<Rightarrow> 'db Migration \<Rightarrow> 'db database \<times> error option" where
  "runMigration now d migration =
     (case Up migration (schema d) of
        Inl msg \<Rightarrow> (d, Some (ErrUp msg))
      | Inr schema' \<Rightarrow>
          (let key = Suc (max (history_seq d) (fold max (map migrationHistory.ID (history d)) 0));
               row = \<lparr>migrationHistory.ID = key,
                      migrationHistory.Version = Migration.Version migration,
                      migrationHistory.Description = Migration.Description migration,
                      AppliedAt = now\<rparr>
           in if Migration.Version migration \<in> set (map migrationHistory.Version (history d))
              then (d, Some (ErrUniqueConstraint ''migration_histories.version''))
              else (\<lparr>schema = schema', history = history d @ [row], history_seq = key\<rparr>,
                    None)))"

text \<open>
  The loop of \<^verbatim>\<open>Migrate\<close> (lines 60-68) over the migrations, with the set
  \<^verbatim>\<open>appliedVersions\<close> that was read before the loop: a migration in the set is skipped, the
  first failure ends the run.
\<close>

fun run_pending ::
  "int set \<Rightarrow> int \<Rightarrow> 'db database \<Rightarrow> 'db Migration list \<Rightarrow> 'db database \<times> error option" where
  "run_pending appliedVersions now d [] = (d, None)"
| "run_pending appliedVersions now d (migration # rest) =
     (if Migration.Version migration \<in> appliedVersions
      then run_pending appliedVersions now d rest
      else case runMigration now d migration of
             (d', Some err) \<Rightarrow>
               (d', Some (ErrMigration (Migration.Version migration)
                            (Migration.Description migration) err))
           | (d', None) \<Rightarrow> run_pending appliedVersions now d' rest)"

text \<open>
  \<^verbatim>\<open>Migrate\<close> (line 42). The history table exists from the first call on; the clock is
  read as one value for the run.
\<close>

definition Migrate ::
  "int \<Rightarrow> 'db Migration list \<Rightarrow> 'db database \<Rightarrow> 'db database \<times> error option" where
  "Migrate now migrations d =
     run_pending (set (map migrationHistory.Version (history d))) now d migrations"


text \<open>
  Two migrations over a schema that is the list of its table names, and a third whose
  \<^verbatim>\<open>Up\<close> fails.
\<close>

definition add_table :: "string \<Rightarrow> int \<Rightarrow> string list Migration" where
  "add_table name v =
     \<lparr>Migration.Version = v, Migration.Description = name,
      Up = (\<lambda>db. Inr (db @ [name])), Down = (\<lambda>db. Inr (butlast db))\<rparr>"

definition broken :: "int \<Rightarrow> string list Migration" where
  "broken v =
     \<lparr>Migration.Version = v, Migration.Description = ''broken'',
      Up = (\<lambda>db. Inl ''no such table''), Down = (\<lambda>db. Inr db)\<rparr>"

definition fresh_database :: "string list database" where
  "fresh_database = \<lparr>schema = [], history = [], history_seq = 0\<rparr>"



section \<open>Fresh keys\<close>

lemma fold_max_ge: "(x::nat) \<in> set xs \<Longrightarrow> x \<le> fold max xs a"
proof (induction xs arbitrary: a)
  case Nil
  then show ?case by simp
next
  case (Cons y ys)
  have grows: "\<And>b. b \<le> fold max ys b"
    using Max.set_eq_fold[of _ ys] by (metis List.finite_set Max_ge list.set_intros(1))
  show ?case
  proof (cases "x = y")
    case True
    then show ?thesis using grows[of "max y a"] by simp
  next
    case False
    then show ?thesis using Cons by simp
  qed
qed

lemma next_id_fresh: "next_id ids \<notin> set ids"
  using fold_max_ge[of "next_id ids" ids 0] by (auto simp: next_id_def)

lemma next_id_pos: "next_id ids \<noteq> 0"
  by (simp add: next_id_def)

text \<open>The example database is what the two creating calls produce from the empty one.\<close>

lemma pic_store_reached:
  "CreateBackend 1 empty_store selfhosted
     = Inr (empty_store\<lparr>backends := [selfhosted]\<rparr>, selfhosted)
   \<and> CreateFile 2 (empty_store\<lparr>backends := [selfhosted]\<rparr>) pic
     = Inr (pic_store, pic\<lparr>File.ID := 1, File.CreatedAt := 2, File.UpdatedAt := 2\<rparr>)"
  by (simp add: Let_def CreateBackend_def CreateFile_def empty_store_def selfhosted_def
      pic_def pic_store_def stamp_def next_id_def)

lemma ex_rows:
  "backends pic_store = [selfhosted]"
  "files pic_store = [pic\<lparr>File.ID := 1, File.CreatedAt := 2, File.UpdatedAt := 2\<rparr>]"
  "tags pic_store = []" "filters pic_store = []"
  by (simp_all add: pic_store_def)

lemma ex_fields:
  "Backend.ID selfhosted = ''selfhosted''" "Backend.DeletedAt selfhosted = None"
  "BackendID pic = ''selfhosted''" "Path pic = ''pic.jpg''" "File.DeletedAt pic = None"
  "File.ID pic = 0"
  "Tag.ID red = 0" "FileID red = 1" "Key red = ''colour''" "Value red = ''red''"
  "Tag.DeletedAt red = None" "Tag.CreatedAt red = 0" "Tag.UpdatedAt red = 0"
  by (simp_all add: selfhosted_def pic_def red_def)

section \<open>Tags\<close>

lemma CreateTag_fresh:
  assumes "Tag.ID tag = 0"
  shows "\<exists>row. CreateTag now s tag = Inr (s\<lparr>tags := tags s @ [row]\<rparr>, row)
           \<and> Tag.ID row = next_id (map Tag.ID (tags s))
           \<and> FileID row = FileID tag \<and> Key row = Key tag \<and> Value row = Value tag
           \<and> Tag.DeletedAt row = Tag.DeletedAt tag"
  using assms next_id_fresh[of "map Tag.ID (tags s)"]
  by (simp add: CreateTag_def Let_def)

text \<open>
  C1, as stated, fails. Adding \<^verbatim>\<open>colour=red\<close> to file 1 twice leaves two active rows for the
  triple, with the keys 1 and 2: the table has no unique index over
  \<^verbatim>\<open>(file_id, key, value)\<close> and \<^verbatim>\<open>CreateTag\<close> looks nothing up before it inserts.
\<close>

theorem CreateTag_twice_counterexample:
  "CreateTag_twice 3 4 pic_store red =
     Inr (pic_store\<lparr>tags := [red\<lparr>Tag.ID := 1, Tag.CreatedAt := 3, Tag.UpdatedAt := 3\<rparr>,
                              red\<lparr>Tag.ID := 2, Tag.CreatedAt := 4, Tag.UpdatedAt := 4\<rparr>]\<rparr>)
   \<and> length (tag_rows
         (pic_store\<lparr>tags := [red\<lparr>Tag.ID := 1, Tag.CreatedAt := 3, Tag.UpdatedAt := 3\<rparr>,
                              red\<lparr>Tag.ID := 2, Tag.CreatedAt := 4, Tag.UpdatedAt := 4\<rparr>]\<rparr>)
         1 ''colour'' ''red'') = 2"
  by (simp add: Let_def CreateTag_twice_def CreateTag_def pic_store_def red_def stamp_def
      next_id_def tag_rows_def)

text \<open>
  C1, amended. \<^verbatim>\<open>CreateTag\<close> does not deduplicate: for every file F, key K and value V, two
  calls with a new active tag (key unset) for the triple (F, K, V) both succeed, and each
  appends one active row for the triple; the two rows differ in their key. The rows the
  triple had before stay in place.
\<close>

theorem CreateTag_twice_two_rows:
  assumes "Tag.ID tag = 0" and "Tag.DeletedAt tag = None"
    and "FileID tag \<in> set (map File.ID (files s))"
  shows "\<exists>r1 r2. CreateTag_twice now1 now2 s tag = Inr (s\<lparr>tags := tags s @ [r1, r2]\<rparr>)
           \<and> Tag.ID r1 \<noteq> Tag.ID r2
           \<and> tag_rows (s\<lparr>tags := tags s @ [r1, r2]\<rparr>) (FileID tag) (Key tag) (Value tag)
               = tag_rows s (FileID tag) (Key tag) (Value tag) @ [r1, r2]"
proof -
  obtain r1 where r1: "CreateTag now1 s tag = Inr (s\<lparr>tags := tags s @ [r1]\<rparr>, r1)"
    "FileID r1 = FileID tag" "Key r1 = Key tag" "Value r1 = Value tag"
    "Tag.DeletedAt r1 = Tag.DeletedAt tag"
    using CreateTag_fresh[OF assms(1), of now1 s] by blast
  let ?s1 = "s\<lparr>tags := tags s @ [r1]\<rparr>"
  obtain r2 where r2: "CreateTag now2 ?s1 tag = Inr (?s1\<lparr>tags := tags ?s1 @ [r2]\<rparr>, r2)"
    "Tag.ID r2 = next_id (map Tag.ID (tags ?s1))"
    "FileID r2 = FileID tag" "Key r2 = Key tag" "Value r2 = Value tag"
    "Tag.DeletedAt r2 = Tag.DeletedAt tag"
    using CreateTag_fresh[OF assms(1), of now2 ?s1] by blast
  have "Tag.ID r2 \<notin> set (map Tag.ID (tags ?s1))"
    using next_id_fresh r2(2) by metis
  then have differ: "Tag.ID r1 \<noteq> Tag.ID r2" by auto
  have "CreateTag_twice now1 now2 s tag = Inr (s\<lparr>tags := tags s @ [r1, r2]\<rparr>)"
    using r1(1) r2(1) by (simp add: CreateTag_twice_def)
  moreover have "tag_rows (s\<lparr>tags := tags s @ [r1, r2]\<rparr>) (FileID tag) (Key tag) (Value tag)
               = tag_rows s (FileID tag) (Key tag) (Value tag) @ [r1, r2]"
    using r1 r2 assms(2) by (simp add: tag_rows_def)
  ultimately show ?thesis using differ by blast
qed

theorem CreateTag_twice_two_rows_witness:
  "Tag.ID red = 0 \<and> Tag.DeletedAt red = None
   \<and> FileID red \<in> set (map File.ID (files pic_store))
   \<and> (\<exists>r1 r2. CreateTag_twice 3 4 pic_store red
                  = Inr (pic_store\<lparr>tags := tags pic_store @ [r1, r2]\<rparr>)
           \<and> Tag.ID r1 \<noteq> Tag.ID r2
           \<and> tag_rows (pic_store\<lparr>tags := tags pic_store @ [r1, r2]\<rparr>)
                 (FileID red) (Key red) (Value red)
               = tag_rows pic_store (FileID red) (Key red) (Value red) @ [r1, r2])"
proof -
  have h: "Tag.ID red = 0" "Tag.DeletedAt red = None"
    "FileID red \<in> set (map File.ID (files pic_store))"
    by (simp_all add: red_def pic_store_def)
  show ?thesis using h CreateTag_twice_two_rows[OF h, of 3 4] by blast
qed

section \<open>Files\<close>

text \<open>
  C2: the code does not keep \<^verbatim>\<open>(BackendID, Path)\<close> unique. Creating \<^verbatim>\<open>selfhosted/pic.jpg\<close> a
  second time succeeds and leaves two active rows for the pair, with the keys 1 and 2.
\<close>

theorem CreateFile_duplicate_path:
  "unique_backend_path pic_store
   \<and> CreateFile 3 pic_store pic
       = Inr (pic_store\<lparr>files := files pic_store
                           @ [pic\<lparr>File.ID := 2, File.CreatedAt := 3, File.UpdatedAt := 3\<rparr>]\<rparr>,
              pic\<lparr>File.ID := 2, File.CreatedAt := 3, File.UpdatedAt := 3\<rparr>)
   \<and> \<not> unique_backend_path
         (pic_store\<lparr>files := files pic_store
                           @ [pic\<lparr>File.ID := 2, File.CreatedAt := 3, File.UpdatedAt := 3\<rparr>]\<rparr>)"
  by (simp add: Let_def CreateFile_def unique_backend_path_def pic_store_def pic_def stamp_def
      next_id_def)

section \<open>Backends\<close>

lemma selected_Where:
  "selected deleted (Where c Model) rows = filter (\<lambda>r. c r \<and> deleted r = None) rows"
  by (simp add: selected_def Where_def Model_def)

lemma First_cases:
  assumes "\<And>xs. set (ordered xs) = set xs"
  shows "(\<exists>r. First deleted ordered (Where c Model) rows = Inr r
              \<and> r \<in> set rows \<and> c r \<and> deleted r = None)
         \<or> (First deleted ordered (Where c Model) rows = Inl ErrRecordNotFound
              \<and> (\<forall>r \<in> set rows. \<not> (c r \<and> deleted r = None)))"
proof (cases "ordered (selected deleted (Where c Model) rows)")
  case Nil
  then have "set (selected deleted (Where c Model) rows) = {}"
    using assms[of "selected deleted (Where c Model) rows"] by simp
  then have "\<forall>r \<in> set rows. \<not> (c r \<and> deleted r = None)"
    by (auto simp: selected_Where filter_empty_conv)
  then show ?thesis using Nil by (simp add: First_def)
next
  case (Cons r rest)
  then have "r \<in> set (selected deleted (Where c Model) rows)"
    using assms[of "selected deleted (Where c Model) rows"] by (metis list.set_intros(1))
  then have "r \<in> set rows \<and> c r \<and> deleted r = None"
    by (simp add: selected_Where)
  then show ?thesis using Cons by (simp add: First_def)
qed

lemma First_unique:
  assumes "\<And>xs. set (ordered xs) = set xs"
    and "r \<in> set rows" and "c r" and "deleted r = None"
    and "\<And>r'. r' \<in> set rows \<Longrightarrow> c r' \<Longrightarrow> deleted r' = None \<Longrightarrow> r' = r"
  shows "First deleted ordered (Where c Model) rows = Inr r"
  using First_cases[OF assms(1), of deleted c rows] assms(2-5) by blast

lemma GetBackend_cases:
  "(\<exists>b. GetBackend s i = Inr b \<and> b \<in> set (backends s) \<and> Backend.ID b = i \<and> Backend.DeletedAt b = None)
   \<or> (GetBackend s i = Inl ErrRecordNotFound
        \<and> (\<forall>b \<in> set (backends s). \<not> (Backend.ID b = i \<and> Backend.DeletedAt b = None)))"
  unfolding GetBackend_def
  using First_cases[of "\<lambda>rows. rows" Backend.DeletedAt "\<lambda>b. Backend.ID b = i" "backends s"]
  by simp

text \<open>
  C4, as stated, fails. \<^verbatim>\<open>CreateBackend\<close> stores a backend whose identifier is \<^verbatim>\<open>a/b\<close>, and
  \<^verbatim>\<open>GetBackend\<close> then finds it: the store checks no identifier, and the registry that the
  design document gives the check to does not exist in the code.
\<close>

theorem CreateBackend_illegal_id_counterexample:
  "\<not> isValidBackendID ''a/b''
   \<and> CreateBackend 1 empty_store (selfhosted\<lparr>Backend.ID := ''a/b''\<rparr>)
       = Inr (empty_store\<lparr>backends := [selfhosted\<lparr>Backend.ID := ''a/b''\<rparr>]\<rparr>,
              selfhosted\<lparr>Backend.ID := ''a/b''\<rparr>)
   \<and> GetBackend (empty_store\<lparr>backends := [selfhosted\<lparr>Backend.ID := ''a/b''\<rparr>]\<rparr>) ''a/b''
       = Inr (selfhosted\<lparr>Backend.ID := ''a/b''\<rparr>)"
  by (simp add: isValidBackendID_def backend_id_chars_def Let_def CreateBackend_def
      empty_store_def selfhosted_def
      stamp_def GetBackend_def First_def selected_def Where_def Model_def)

lemma CreateBackend_then_GetBackend:
  assumes "Backend.ID backend \<notin> set (map Backend.ID (backends s))"
    and "Backend.DeletedAt backend = None"
    and "Backend.ID row = Backend.ID backend" and "Backend.DeletedAt row = None"
  shows "GetBackend (s\<lparr>backends := backends s @ [row]\<rparr>) (Backend.ID backend) = Inr row"
proof -
  let ?s' = "s\<lparr>backends := backends s @ [row]\<rparr>"
  have only: "b = row" if "b \<in> set (backends ?s')" and "Backend.ID b = Backend.ID backend" for b
    using that assms(1) by (auto simp: image_iff)
  obtain b where "GetBackend ?s' (Backend.ID backend) = Inr b" "b \<in> set (backends ?s')"
    "Backend.ID b = Backend.ID backend"
    using GetBackend_cases[of ?s' "Backend.ID backend"] assms(3,4) by auto
  then show ?thesis using only by simp
qed

text \<open>
  C4, amended. \<^verbatim>\<open>CreateBackend\<close> rejects a backend only for its key: it fails with a
  \<^verbatim>\<open>UNIQUE\<close> constraint error when a row with the same identifier exists, active or
  soft-deleted, and otherwise appends the backend as the caller gave it, whatever
  characters the identifier has. The stored row differs from the argument only where
  GORM fills a field in: a zero \<^verbatim>\<open>CreatedAt\<close> or \<^verbatim>\<open>UpdatedAt\<close> becomes the current time, and
  \<^verbatim>\<open>UseSSL\<close> is stored as true. An active backend so created is what \<^verbatim>\<open>GetBackend\<close> returns
  for the identifier.
\<close>

theorem CreateBackend_checks_only_the_key:
  "(Backend.ID backend \<in> set (map Backend.ID (backends s))
      \<longrightarrow> CreateBackend now s backend = Inl (ErrUniqueConstraint ''backends.id''))
   \<and> (Backend.ID backend \<notin> set (map Backend.ID (backends s))
      \<longrightarrow> CreateBackend now s backend
            = Inr (s\<lparr>backends := backends s @
                      [backend\<lparr>UseSSL := True,
                         Backend.CreatedAt := (if Backend.CreatedAt backend = 0 then now
                                               else Backend.CreatedAt backend),
                         Backend.UpdatedAt := (if Backend.UpdatedAt backend = 0 then now
                                               else Backend.UpdatedAt backend)\<rparr>]\<rparr>,
                   backend\<lparr>UseSSL := True,
                      Backend.CreatedAt := (if Backend.CreatedAt backend = 0 then now
                                            else Backend.CreatedAt backend),
                      Backend.UpdatedAt := (if Backend.UpdatedAt backend = 0 then now
                                            else Backend.UpdatedAt backend)\<rparr>)
          \<and> (Backend.DeletedAt backend = None
               \<longrightarrow> GetBackend
                     (s\<lparr>backends := backends s @
                        [backend\<lparr>UseSSL := True,
                           Backend.CreatedAt := (if Backend.CreatedAt backend = 0 then now
                                                 else Backend.CreatedAt backend),
                           Backend.UpdatedAt := (if Backend.UpdatedAt backend = 0 then now
                                                 else Backend.UpdatedAt backend)\<rparr>]\<rparr>)
                     (Backend.ID backend)
                   = Inr (backend\<lparr>UseSSL := True,
                            Backend.CreatedAt := (if Backend.CreatedAt backend = 0 then now
                                                  else Backend.CreatedAt backend),
                            Backend.UpdatedAt := (if Backend.UpdatedAt backend = 0 then now
                                                  else Backend.UpdatedAt backend)\<rparr>)))"
proof (cases "Backend.ID backend \<in> set (map Backend.ID (backends s))")
  case True
  then show ?thesis by (simp add: CreateBackend_def Let_def)
next
  case False
  define row where "row = backend\<lparr>UseSSL := True,
       Backend.CreatedAt := (if Backend.CreatedAt backend = 0 then now
                             else Backend.CreatedAt backend),
       Backend.UpdatedAt := (if Backend.UpdatedAt backend = 0 then now
                             else Backend.UpdatedAt backend)\<rparr>"
  have created: "CreateBackend now s backend = Inr (s\<lparr>backends := backends s @ [row]\<rparr>, row)"
    using False by (simp add: CreateBackend_def Let_def row_def stamp_def)
  have key: "Backend.ID row = Backend.ID backend"
    and del: "Backend.DeletedAt row = Backend.DeletedAt backend"
    by (simp_all add: row_def)
  have found: "GetBackend (s\<lparr>backends := backends s @ [row]\<rparr>) (Backend.ID backend) = Inr row"
    if "Backend.DeletedAt backend = None"
    using CreateBackend_then_GetBackend[OF False that key] del that by simp
  show ?thesis
    unfolding row_def[symmetric] using False created found by simp
qed

theorem CreateBackend_checks_only_the_key_witness:
  "\<not> isValidBackendID ''a/b''
   \<and> Backend.ID (selfhosted\<lparr>Backend.ID := ''a/b'', UseSSL := False\<rparr>)
       \<notin> set (map Backend.ID (backends pic_store))
   \<and> Backend.DeletedAt (selfhosted\<lparr>Backend.ID := ''a/b'', UseSSL := False\<rparr>) = None
   \<and> CreateBackend 3 pic_store (selfhosted\<lparr>Backend.ID := ''a/b'', UseSSL := False\<rparr>)
       = Inr (pic_store\<lparr>backends := [selfhosted, selfhosted\<lparr>Backend.ID := ''a/b''\<rparr>]\<rparr>,
              selfhosted\<lparr>Backend.ID := ''a/b''\<rparr>)
   \<and> GetBackend (pic_store\<lparr>backends := [selfhosted, selfhosted\<lparr>Backend.ID := ''a/b''\<rparr>]\<rparr>) ''a/b''
       = Inr (selfhosted\<lparr>Backend.ID := ''a/b''\<rparr>)
   \<and> Backend.ID selfhosted \<in> set (map Backend.ID (backends pic_store))
   \<and> CreateBackend 3 pic_store selfhosted = Inl (ErrUniqueConstraint ''backends.id'')"
proof -
  let ?b = "selfhosted\<lparr>Backend.ID := ''a/b'', UseSSL := False\<rparr>"
  have fresh: "Backend.ID ?b \<notin> set (map Backend.ID (backends pic_store))"
    and active: "Backend.DeletedAt ?b = None"
    and used: "Backend.ID selfhosted \<in> set (map Backend.ID (backends pic_store))"
    by (simp_all add: ex_rows ex_fields)
  have bad: "\<not> isValidBackendID ''a/b''"
    by (simp add: isValidBackendID_def backend_id_chars_def)
  have stored: "?b\<lparr>UseSSL := True,
       Backend.CreatedAt := (if Backend.CreatedAt ?b = 0 then 3 else Backend.CreatedAt ?b),
       Backend.UpdatedAt := (if Backend.UpdatedAt ?b = 0 then 3 else Backend.UpdatedAt ?b)\<rparr>
     = selfhosted\<lparr>Backend.ID := ''a/b''\<rparr>"
    by (simp add: selfhosted_def)
  have list: "backends pic_store @ [selfhosted\<lparr>Backend.ID := ''a/b''\<rparr>]
     = [selfhosted, selfhosted\<lparr>Backend.ID := ''a/b''\<rparr>]"
    by (simp add: ex_rows)
  have id: "Backend.ID ?b = ''a/b''" by simp
  have fresh': "''a/b'' \<notin> set (map Backend.ID (backends pic_store))"
    by (simp add: ex_rows ex_fields)
  note made = CreateBackend_checks_only_the_key[of ?b pic_store 3, unfolded stored list id,
      THEN conjunct2, rule_format, OF fresh']
  have created: "CreateBackend 3 pic_store ?b
       = Inr (pic_store\<lparr>backends := [selfhosted, selfhosted\<lparr>Backend.ID := ''a/b''\<rparr>]\<rparr>,
              selfhosted\<lparr>Backend.ID := ''a/b''\<rparr>)"
    by (rule made[THEN conjunct1])
  have found: "GetBackend (pic_store\<lparr>backends := [selfhosted, selfhosted\<lparr>Backend.ID := ''a/b''\<rparr>]\<rparr>)
       ''a/b'' = Inr (selfhosted\<lparr>Backend.ID := ''a/b''\<rparr>)"
    by (rule made[THEN conjunct2, rule_format, OF active])
  have refused: "CreateBackend 3 pic_store selfhosted = Inl (ErrUniqueConstraint ''backends.id'')"
    by (rule CreateBackend_checks_only_the_key[of selfhosted pic_store 3, THEN conjunct1,
          rule_format, OF used])
  show ?thesis
    using bad fresh active created found used refused by (intro conjI)
qed

section \<open>Filters\<close>

lemma GetFilter_cases:
  "(\<exists>f. GetFilter s v = Inr f \<and> f \<in> set (filters s) \<and> VirtualPath f = v \<and> Filter.DeletedAt f = None)
   \<or> (GetFilter s v = Inl ErrRecordNotFound
        \<and> (\<forall>f \<in> set (filters s). \<not> (VirtualPath f = v \<and> Filter.DeletedAt f = None)))"
  unfolding GetFilter_def
  using First_cases[of "sort_key Filter.ID" Filter.DeletedAt "\<lambda>f. VirtualPath f = v" "filters s"]
  by simp

lemma CreateFilter_keeps_index:
  assumes "distinct (map VirtualPath (filters s))" and "CreateFilter now s flt = Inr (s', row)"
  shows "distinct (map VirtualPath (filters s'))"
  using assms by (auto simp: CreateFilter_def Let_def split: if_splits)

text \<open>
  C6. \<^verbatim>\<open>GetFilter\<close> compares the whole argument with the whole \<^verbatim>\<open>virtual_path\<close> column: under
  the unique index of that column, it returns the active filter whose path equals V when
  there is one, fails with \<^verbatim>\<open>ErrRecordNotFound\<close> when there is none, and never returns a
  filter with another path (so none whose path is a proper prefix of V).
\<close>

theorem GetFilter_exact_match:
  assumes "distinct (map VirtualPath (filters s))"
  shows "(\<forall>f \<in> set (filters s). Filter.DeletedAt f = None \<and> VirtualPath f = v
            \<longrightarrow> GetFilter s v = Inr f)
       \<and> ((\<forall>f \<in> set (filters s). \<not> (Filter.DeletedAt f = None \<and> VirtualPath f = v))
            \<longrightarrow> GetFilter s v = Inl ErrRecordNotFound)
       \<and> (\<forall>f. GetFilter s v = Inr f
            \<longrightarrow> f \<in> set (filters s) \<and> Filter.DeletedAt f = None \<and> VirtualPath f = v)"
proof -
  have one: "\<And>f g. f \<in> set (filters s) \<Longrightarrow> g \<in> set (filters s)
                 \<Longrightarrow> VirtualPath f = VirtualPath g \<Longrightarrow> f = g"
    using assms by (auto simp: distinct_map inj_on_def)
  show ?thesis using GetFilter_cases[of s v] one by (auto split: sum.splits)
qed

theorem GetFilter_exact_match_witness:
  "distinct (map VirtualPath (filters (pic_store\<lparr>filters := [red_filter]\<rparr>)))
   \<and> GetFilter (pic_store\<lparr>filters := [red_filter]\<rparr>) ''filters/pictures/red'' = Inr red_filter
   \<and> GetFilter (pic_store\<lparr>filters := [red_filter]\<rparr>) ''filters/pictures/red/2024''
       = Inl ErrRecordNotFound"
proof -
  have idx: "distinct (map VirtualPath (filters (pic_store\<lparr>filters := [red_filter]\<rparr>)))"
    by simp
  show ?thesis
    using idx
      GetFilter_exact_match[OF idx, of "''filters/pictures/red''"]
      GetFilter_exact_match[OF idx, of "''filters/pictures/red/2024''"]
    by (simp add: red_filter_def)
qed

section \<open>Soft deletion\<close>

lemma soft_delete_others:
  assumes "\<And>r. c (mark now r) = c r"
  shows "filter (\<lambda>r. \<not> c r) (soft_delete deleted mark now c rows) = filter (\<lambda>r. \<not> c r) rows"
  unfolding soft_delete_def using assms by (induction rows) auto

lemma soft_delete_none_left:
  assumes "\<And>r. c (mark now r) = c r" and "\<And>r. deleted (mark now r) \<noteq> None"
    and "r \<in> set (soft_delete deleted mark now c rows)" and "c r"
  shows "deleted r \<noteq> None"
  using assms unfolding soft_delete_def by (auto split: if_splits)

text \<open>
  What \<^verbatim>\<open>DeleteBackend\<close> does achieve: the backend is gone from the active view, and the
  files, tags, filters and the other backends are as before.
\<close>

lemma DeleteBackend_only_backends:
  "files (DeleteBackend now s i) = files s \<and> tags (DeleteBackend now s i) = tags s
   \<and> filters (DeleteBackend now s i) = filters s
   \<and> filter (\<lambda>b. Backend.ID b \<noteq> i) (backends (DeleteBackend now s i))
       = filter (\<lambda>b. Backend.ID b \<noteq> i) (backends s)"
  using soft_delete_others[of "\<lambda>b. Backend.ID b = i" "\<lambda>t b. b\<lparr>Backend.DeletedAt := Some t\<rparr>" now
      Backend.DeletedAt "backends s"]
  by (simp add: DeleteBackend_def)

lemma DeleteBackend_GetBackend:
  "GetBackend (DeleteBackend now s i) i = Inl ErrRecordNotFound"
proof -
  have "Backend.DeletedAt b \<noteq> None"
    if "b \<in> set (backends (DeleteBackend now s i))" and "Backend.ID b = i" for b
    using soft_delete_none_left[of "\<lambda>b. Backend.ID b = i"
        "\<lambda>t b. b\<lparr>Backend.DeletedAt := Some t\<rparr>" now Backend.DeletedAt b "backends s"] that
    by (simp add: DeleteBackend_def)
  then show ?thesis using GetBackend_cases[of "DeleteBackend now s i" i] by blast
qed

text \<open>
  C7: the files of a deleted backend stay in the active view. After
  \<^verbatim>\<open>DeleteBackend("selfhosted")\<close> on the example database \<^verbatim>\<open>GetBackend\<close> fails with
  \<^verbatim>\<open>ErrRecordNotFound\<close>, but \<^verbatim>\<open>GetFile("selfhosted", "pic.jpg")\<close> still returns the file and
  \<^verbatim>\<open>ListFiles("selfhosted", "", 0, 0)\<close> still lists it: the delete is an \<^verbatim>\<open>UPDATE\<close> of the
  backend row, so the \<^verbatim>\<open>OnDelete:CASCADE\<close> that backend.go:27 declares for the files never
  runs, and \<^verbatim>\<open>DeleteBackend\<close> does not call \<^verbatim>\<open>DeleteFilesByBackend\<close>.
\<close>

theorem DeleteBackend_leaves_files:
  "GetBackend (DeleteBackend 3 pic_store ''selfhosted'') ''selfhosted'' = Inl ErrRecordNotFound
   \<and> GetFile (DeleteBackend 3 pic_store ''selfhosted'') ''selfhosted'' ''pic.jpg''
       = Inr (pic\<lparr>File.ID := 1, File.CreatedAt := 2, File.UpdatedAt := 2\<rparr>)
   \<and> ListFiles (DeleteBackend 3 pic_store ''selfhosted'') ''selfhosted'' '''' 0 0
       = [pic\<lparr>File.ID := 1, File.CreatedAt := 2, File.UpdatedAt := 2\<rparr>]"
  by (simp add: DeleteBackend_def soft_delete_def ex_rows ex_fields
      GetBackend_def GetFile_def ListFiles_def First_def Find_def window_def selected_def
      Where_def Model_def Let_def)

section \<open>Files by tag\<close>

text \<open>
  C8: \<^verbatim>\<open>GetFilesByTag\<close> returns a file that has no active tag with the key and value.
  Tag \<^verbatim>\<open>colour=red\<close> is added to file 1 and removed again with \<^verbatim>\<open>DeleteTag\<close>;
  \<^verbatim>\<open>GetFileTags\<close> then shows no tag for the file, yet \<^verbatim>\<open>GetFilesByTag("colour", "red")\<close>
  still returns it, because the join reads the soft-deleted tag row.
\<close>

theorem GetFilesByTag_deleted_tag:
  "CreateTag 3 pic_store red
     = Inr (pic_store\<lparr>tags := [red\<lparr>Tag.ID := 1, Tag.CreatedAt := 3, Tag.UpdatedAt := 3\<rparr>]\<rparr>,
            red\<lparr>Tag.ID := 1, Tag.CreatedAt := 3, Tag.UpdatedAt := 3\<rparr>)
   \<and> DeleteTag 4 (pic_store\<lparr>tags := [red\<lparr>Tag.ID := 1, Tag.CreatedAt := 3, Tag.UpdatedAt := 3\<rparr>]\<rparr>) 1
     = pic_store\<lparr>tags := [red\<lparr>Tag.ID := 1, Tag.CreatedAt := 3, Tag.UpdatedAt := 3,
                                 Tag.DeletedAt := Some 4\<rparr>]\<rparr>
   \<and> GetFileTags (pic_store\<lparr>tags := [red\<lparr>Tag.ID := 1, Tag.CreatedAt := 3, Tag.UpdatedAt := 3,
                                 Tag.DeletedAt := Some 4\<rparr>]\<rparr>) 1 = []
   \<and> GetFilesByTag (pic_store\<lparr>tags := [red\<lparr>Tag.ID := 1, Tag.CreatedAt := 3, Tag.UpdatedAt := 3,
                                 Tag.DeletedAt := Some 4\<rparr>]\<rparr>) ''colour'' ''red'' 0 0
     = [pic\<lparr>File.ID := 1, File.CreatedAt := 2, File.UpdatedAt := 2\<rparr>]"
  by (simp add: CreateTag_def DeleteTag_def soft_delete_def GetFileTags_def GetFilesByTag_def
      files_join_tags_def Find_def window_def selected_def Where_def Model_def Let_def
      ex_rows ex_fields stamp_def next_id_def)

text \<open>
  The join also yields a file once for each matching tag row: with the two rows that adding
  \<^verbatim>\<open>colour=red\<close> twice leaves, file 1 is returned twice.
\<close>

lemma GetFilesByTag_repeats_file:
  "GetFilesByTag
     (pic_store\<lparr>tags := [red\<lparr>Tag.ID := 1, Tag.CreatedAt := 3, Tag.UpdatedAt := 3\<rparr>,
                          red\<lparr>Tag.ID := 2, Tag.CreatedAt := 4, Tag.UpdatedAt := 4\<rparr>]\<rparr>)
     ''colour'' ''red'' 0 0
   = [pic\<lparr>File.ID := 1, File.CreatedAt := 2, File.UpdatedAt := 2\<rparr>,
      pic\<lparr>File.ID := 1, File.CreatedAt := 2, File.UpdatedAt := 2\<rparr>]"
  by (simp add: GetFilesByTag_def files_join_tags_def Find_def window_def selected_def
      Where_def Model_def Let_def ex_rows ex_fields)

section \<open>Listing files\<close>





lemma lists_file_conv:
  "q \<noteq> [] \<Longrightarrow> lists_file b q
     = (\<lambda>r. BackendID r = b \<and> like (q @ ''%'') (Path r) \<and> File.DeletedAt r = None)"
  "lists_file b [] = (\<lambda>r. BackendID r = b \<and> File.DeletedAt r = None)"
  by (auto simp: lists_file_def fun_eq_iff)

lemma ListFiles_paged:
  "ListFiles s b q lim off =
     (let skipped = (if off > 0 then drop (nat off) (filter (lists_file b q) (files s))
                     else filter (lists_file b q) (files s))
      in if lim > 0 then take (nat lim) skipped else skipped)"
  by (cases "q = []")
    (simp_all add: ListFiles_def Let_def Find_def window_def selected_def Where_def Model_def
      Limit_def Offset_def lists_file_conv)

lemma ListFiles_unpaged: "ListFiles s b q 0 0 = filter (lists_file b q) (files s)"
  by (simp add: ListFiles_paged)


lemma album_rows:
  "files album_store =
     [pic\<lparr>File.ID := 1, File.CreatedAt := 2, File.UpdatedAt := 2\<rparr>,
      pic\<lparr>File.ID := 2, Path := ''art.jpg'', File.CreatedAt := 3, File.UpdatedAt := 3\<rparr>,
      pic\<lparr>File.ID := 3, Path := ''PIC.JPG'', File.CreatedAt := 4, File.UpdatedAt := 4\<rparr>]"
  by (simp add: album_store_def)

lemma album_listing:
  "ListFiles album_store ''selfhosted'' '''' 0 0 = files album_store"
  by (simp add: ListFiles_unpaged lists_file_def album_rows ex_fields)

text \<open>
  The query has no \<^verbatim>\<open>ORDER BY\<close>: the rows come as the table yields them, here not in
  ascending order of the path. And \<^verbatim>\<open>LIKE\<close> is not a prefix test: the prefix \<^verbatim>\<open>pic\<close>
  also lists \<^verbatim>\<open>PIC.JPG\<close>, and the prefix \<^verbatim>\<open>_\<close>, with which no path begins, lists every file.
\<close>

lemma ListFiles_table_order:
  "map Path (ListFiles album_store ''selfhosted'' '''' 0 0) = [''pic.jpg'', ''art.jpg'', ''PIC.JPG'']"
  by (simp add: album_listing album_rows ex_fields)

lemma ListFiles_like_is_not_prefix:
  "map Path (ListFiles album_store ''selfhosted'' ''pic'' 0 0) = [''pic.jpg'', ''PIC.JPG'']"
  "map Path (ListFiles album_store ''selfhosted'' ''_'' 0 0) = [''pic.jpg'', ''art.jpg'', ''PIC.JPG'']"
  by (simp_all add: ListFiles_unpaged lists_file_def album_rows ex_fields sqlite3Tolower_def)






section \<open>Resolving virtual paths\<close>

lemma slash_not_id_char: "CHR ''/'' \<notin> set backend_id_chars"
  by (simp add: backend_id_chars_def)

lemma isValidBackendID_no_slash:
  assumes "isValidBackendID b"
  shows "b \<noteq> [] \<and> CHR ''/'' \<notin> set b"
proof (cases b)
  case Nil
  then show ?thesis using assms by (simp add: isValidBackendID_def)
next
  case (Cons c cs)
  then have "list_all (\<lambda>c. c \<in> set backend_id_chars) b"
    using assms by (simp add: isValidBackendID_def)
  then have "\<forall>c \<in> set b. c \<in> set backend_id_chars"
    by (simp add: list_all_iff)
  then have "CHR ''/'' \<notin> set b" using slash_not_id_char by blast
  then show ?thesis using Cons by simp
qed

lemma split_first_join:
  assumes "CHR ''/'' \<notin> set b"
  shows "split_first (b @ ''/'' @ p) = (b, p)"
proof -
  have all: "\<forall>c \<in> set b. c \<noteq> CHR ''/''" using assms by auto
  have "takeWhile (\<lambda>c. c \<noteq> CHR ''/'') (b @ CHR ''/'' # p) = b"
    using all by (induction b) auto
  moreover have "dropWhile (\<lambda>c. c \<noteq> CHR ''/'') (b @ CHR ''/'' # p) = CHR ''/'' # p"
    using all by (induction b) auto
  ultimately show ?thesis by (simp add: split_first_def)
qed


lemma GetBackend_example:
  "GetBackend pic_store ''selfhosted'' = Inr selfhosted"
  "GetBackend pic_store ''aws'' = Inl ErrRecordNotFound"
  "GetBackend pic_store ''.x'' = Inl ErrRecordNotFound"
  by (simp_all add: GetBackend_def First_def selected_def Where_def Model_def ex_rows ex_fields)

lemma isValidBackendID_examples:
  "isValidBackendID ''selfhosted''" "isValidBackendID ''aws''" "isValidBackendID ''a''"
  "\<not> isValidBackendID ''.x''" "isValidBackendID ''filters''"
  by (simp_all add: isValidBackendID_def backend_id_chars_def)

lemma split_first_examples:
  "split_first ''a/b/c'' = (''a'', ''b/c'')" "split_first ''.x/y'' = (''.x'', ''y'')"
  "split_first ''aws/x'' = (''aws'', ''x'')" "split_first ''filters/x'' = (''filters'', ''x'')"
  by (simp_all add: split_first_def)

text \<open>
  C5, as stated, fails at three places. A backend registered as \<^verbatim>\<open>a/b\<close> (which
  \<^verbatim>\<open>CreateBackend\<close> accepts) is not found through the path \<^verbatim>\<open>a/b/c\<close>, whose first segment is
  \<^verbatim>\<open>a\<close>. The path \<^verbatim>\<open>.x/y\<close>, whose first segment is no registered backend, fails with
  \<^verbatim>\<open>InvalidPath\<close> and not with \<^verbatim>\<open>NotFound\<close>, as section 4.1 demands. And a backend registered
  under the reserved token is shadowed by the filter namespace.
\<close>

theorem resolve_counterexample:
  "GetBackend (empty_store\<lparr>backends := [selfhosted\<lparr>Backend.ID := ''a/b''\<rparr>]\<rparr>) ''a/b''
     = Inr (selfhosted\<lparr>Backend.ID := ''a/b''\<rparr>)
   \<and> resolve ''filters'' (empty_store\<lparr>backends := [selfhosted\<lparr>Backend.ID := ''a/b''\<rparr>]\<rparr>)
         (''a/b'' @ ''/'' @ ''c'') = Inl NotFound
   \<and> GetBackend pic_store ''.x'' = Inl ErrRecordNotFound
   \<and> resolve ''filters'' pic_store ''.x/y'' = Inl InvalidPath
   \<and> GetBackend (empty_store\<lparr>backends := [selfhosted\<lparr>Backend.ID := ''filters''\<rparr>]\<rparr>) ''filters''
     = Inr (selfhosted\<lparr>Backend.ID := ''filters''\<rparr>)
   \<and> resolve ''filters'' (empty_store\<lparr>backends := [selfhosted\<lparr>Backend.ID := ''filters''\<rparr>]\<rparr>)
         (''filters'' @ ''/'' @ ''x'') = Inl NotFound"
  by (simp add: resolve_def split_first_examples isValidBackendID_examples GetBackend_example
      GetBackend_def GetFilter_def First_def selected_def Where_def Model_def empty_store_def
      ex_rows ex_fields)

text \<open>
  C5, amended. For a registered backend B whose identifier passes the identifier check and
  is not the reserved token, and any path P in it, resolving \<^verbatim>\<open>B/P\<close> yields B and P. For a
  path whose first segment passes the check, is not the reserved token and is not a
  registered backend, resolution fails with \<^verbatim>\<open>NotFound\<close>.
\<close>

theorem resolve_backend_path:
  "(isValidBackendID b \<and> b \<noteq> token \<and> GetBackend s b = Inr backend
      \<longrightarrow> resolve token s (b @ ''/'' @ p) = Inr (BackendPath backend p))
   \<and> (isValidBackendID (fst (split_first path)) \<and> fst (split_first path) \<noteq> token
       \<and> GetBackend s (fst (split_first path)) = Inl err
      \<longrightarrow> resolve token s path = Inl NotFound)"
proof (intro conjI impI)
  assume h: "isValidBackendID b \<and> b \<noteq> token \<and> GetBackend s b = Inr backend"
  then have shape: "b \<noteq> []" "CHR ''/'' \<notin> set b"
    using isValidBackendID_no_slash by auto
  have split: "split_first (b @ ''/'' @ p) = (b, p)"
    using split_first_join[OF shape(2)] .
  have "b @ ''/'' @ p \<noteq> []" "b @ ''/'' @ p \<noteq> ''/''"
    using shape(1) by (auto simp: append_eq_Cons_conv)
  then show "resolve token s (b @ ''/'' @ p) = Inr (BackendPath backend p)"
    using h split by (simp add: resolve_def)
next
  assume h: "isValidBackendID (fst (split_first path)) \<and> fst (split_first path) \<noteq> token
       \<and> GetBackend s (fst (split_first path)) = Inl err"
  obtain seg rest where sp: "split_first path = (seg, rest)" by (cases "split_first path")
  have "seg \<noteq> []" using h sp isValidBackendID_no_slash by fastforce
  then have "path \<noteq> []" "path \<noteq> ''/''"
    using sp by (auto simp: split_first_def)
  then show "resolve token s path = Inl NotFound"
    using h sp by (simp add: resolve_def)
qed

theorem resolve_backend_path_witness:
  "isValidBackendID ''selfhosted'' \<and> ''selfhosted'' \<noteq> ''filters''
   \<and> GetBackend pic_store ''selfhosted'' = Inr selfhosted
   \<and> resolve ''filters'' pic_store (''selfhosted'' @ ''/'' @ ''pic.jpg'')
       = Inr (BackendPath selfhosted ''pic.jpg'')
   \<and> isValidBackendID (fst (split_first ''aws/x'')) \<and> fst (split_first ''aws/x'') \<noteq> ''filters''
   \<and> GetBackend pic_store (fst (split_first ''aws/x'')) = Inl ErrRecordNotFound
   \<and> resolve ''filters'' pic_store ''aws/x'' = Inl NotFound"
proof -
  have h1: "isValidBackendID ''selfhosted'' \<and> ''selfhosted'' \<noteq> ''filters''
      \<and> GetBackend pic_store ''selfhosted'' = Inr selfhosted"
    by (simp add: isValidBackendID_examples GetBackend_example)
  have h2: "isValidBackendID (fst (split_first ''aws/x'')) \<and> fst (split_first ''aws/x'') \<noteq> ''filters''
      \<and> GetBackend pic_store (fst (split_first ''aws/x'')) = Inl ErrRecordNotFound"
    by (simp add: split_first_examples isValidBackendID_examples GetBackend_example)
  show ?thesis
    using h1 h2
      resolve_backend_path[of "''selfhosted''" "''filters''" pic_store selfhosted "''pic.jpg''"
        "''aws/x''" ErrRecordNotFound]
    by blast
qed

section \<open>The migration ledger\<close>














text \<open>A migration that fails ends the run and leaves no row; the ones after it do not run.\<close>

lemma Migrate_broken:
  "Migrate 7 [add_table ''backends'' 1, broken 2, add_table ''tags'' 3] fresh_database
     = (\<lparr>schema = [''backends''],
         history = [\<lparr>migrationHistory.ID = 1, migrationHistory.Version = 1,
                      migrationHistory.Description = ''backends'', AppliedAt = 7\<rparr>],
         history_seq = 1\<rparr>,
        Some (ErrMigration 2 ''broken'' (ErrUp ''no such table'')))"
  by (simp add: Migrate_def runMigration_def add_table_def broken_def fresh_database_def Let_def)


end
